theory Spec2Isabelle
  imports Main "HOL-Library.Word" "HOL-Library.Finite_Map"
begin

unbundle bit_operations_syntax

section \<open>Go values used by the adapter code\<close>

text \<open>
  A Go \<^verbatim>\<open>error\<close> is modelled by its message; \<^verbatim>\<open>nil\<close> is \<open>None\<close> of
  \<open>error option\<close>.
\<close>

datatype error = Error string

text \<open>
  A \<^verbatim>\<open>float64\<close> is its IEEE 754 binary64 bit pattern: bit 63 is the sign, bits 62 to 52
  the biased exponent, bits 51 to 0 the fraction. The value \<^verbatim>\<open>0.0\<close> is the word \<open>0\<close>.
  A \<^verbatim>\<open>float32\<close> is a binary32 bit pattern.
\<close>

type_synonym float64 = "64 word"
type_synonym float32 = "32 word"

definition exponent_bits :: "float64 \<Rightarrow> nat" where
  "exponent_bits f = unat (take_bit 11 (drop_bit 52 f))"

definition fraction_bits :: "float64 \<Rightarrow> nat" where
  "fraction_bits f = unat (take_bit 52 f)"

definition PosInf :: float64 where
  "PosInf = 0x7FF0000000000000"

definition NegInf :: float64 where
  "NegInf = 0xFFF0000000000000"

text \<open>
  IEEE 754: a binary64 datum is finite exactly when its exponent field is not all ones.
\<close>

definition is_finite :: "float64 \<Rightarrow> bool" where
  "is_finite f = (exponent_bits f \<noteq> 2047)"

text \<open>
  \<^verbatim>\<open>math.IsNaN(f)\<close> and \<^verbatim>\<open>math.IsInf(f, sign)\<close> of the Go standard library:
  a NaN has an all-ones exponent and a non-zero fraction; \<^verbatim>\<open>IsInf\<close> reports whether
  \<open>f\<close> is the positive infinity (\<open>sign \<ge> 0\<close>) or the negative one (\<open>sign \<le> 0\<close>).
\<close>

definition IsNaN :: "float64 \<Rightarrow> bool" where
  "IsNaN f = (exponent_bits f = 2047 \<and> fraction_bits f \<noteq> 0)"

definition IsInf :: "float64 \<Rightarrow> int \<Rightarrow> bool" where
  "IsInf f sign = (sign \<ge> 0 \<and> f = PosInf \<or> sign \<le> 0 \<and> f = NegInf)"

text \<open>
  \<^verbatim>\<open>collector.FixValue\<close> (collector.go): the pointer argument is modelled by the value it
  points to, and the function returns the value stored back.
\<close>

definition FixValue :: "float64 \<Rightarrow> float64" where
  "FixValue x = (if IsNaN x \<or> IsInf x 0 then 0 else x)"

text \<open>\<^verbatim>\<open>utils.CheckValue\<close> (utils.go).\<close>

definition CheckValue :: "float64 \<Rightarrow> bool" where
  "CheckValue x = (\<not> (IsNaN x \<or> IsInf x 0))"

text \<open>\<^verbatim>\<open>utils.FullName\<close> (utils.go).\<close>

definition FullName :: "string \<Rightarrow> string \<Rightarrow> string" where
  "FullName name namespace = name @ '':'' @ namespace"

text \<open>
  Reading \<^verbatim>\<open>m[k]\<close> from a Go \<^verbatim>\<open>map[string]string\<close>: the zero value \<^verbatim>\<open>""\<close> when the key
  is absent. \<^verbatim>\<open>len(m)\<close> is the number of keys.
\<close>

definition map_index :: "(string, string) fmap \<Rightarrow> string \<Rightarrow> string" where
  "map_index m k = (case fmlookup m k of None \<Rightarrow> [] | Some v \<Rightarrow> v)"

definition map_len :: "('k, 'v) fmap \<Rightarrow> nat" where
  "map_len m = fcard (fmdom m)"

text \<open>
  \<^verbatim>\<open>strings.EqualFold\<close> on ASCII letters. Case folding of non-ASCII runes is not
  modelled; no such rune folds to a letter of \<^verbatim>\<open>"true"\<close>, the only string the code
  compares with.
\<close>

definition to_lower :: "char \<Rightarrow> char" where
  "to_lower c = (let n = (of_char c :: nat) in if 65 \<le> n \<and> n \<le> 90 then char_of (n + 32) else c)"

definition EqualFold :: "string \<Rightarrow> string \<Rightarrow> bool" where
  "EqualFold s t = (map to_lower s = map to_lower t)"

section \<open>Library functions and process environment\<close>

text \<open>
  \<^verbatim>\<open>interfaces.ServiceClass\<close>, the type \<^verbatim>\<open>yaml.Unmarshal\<close> fills in
  \<^verbatim>\<open>CreateSystemData\<close>; its fields are the ones that function reads.
\<close>

record ServiceClassEntry =
  sce_Model :: string
  sce_SLOTPOT :: int
  sce_SLOTTFT :: int

record ServiceClass =
  sc_Name :: string
  sc_Priority :: int
  sc_Data :: "ServiceClassEntry list"

text \<open>
  What the code takes from outside the repository is a parameter of the model:
  \<^item> \<open>ParseFloat s bitSize\<close> is \<^verbatim>\<open>strconv.ParseFloat\<close>: \<open>Inl err\<close> when the returned error
    is not nil (the value returned with it is never read by the code), \<open>Inr x\<close> otherwise;
  \<^item> \<open>FormatFloat x fmt prec bitSize\<close> is \<^verbatim>\<open>strconv.FormatFloat\<close>;
  \<^item> \<open>float32_of_float64\<close>, \<open>float32_of_int\<close>, \<open>int_of_float64\<close> and \<open>float64_of_int32\<close>
    are the numeric conversions \<^verbatim>\<open>float32(x)\<close>, \<^verbatim>\<open>int(x)\<close> and \<^verbatim>\<open>float64(n)\<close>;
  \<^item> \<open>float64_mul\<close> is the product of two \<^verbatim>\<open>float64\<close> values;
  \<^item> \<open>Getenv\<close> is \<^verbatim>\<open>os.Getenv\<close>, the empty string for an unset variable;
  \<^item> \<open>yaml_Unmarshal\<close> is \<^verbatim>\<open>yaml.Unmarshal\<close> into a \<^verbatim>\<open>ServiceClass\<close>.
\<close>

record go_lib =
  ParseFloat :: "string \<Rightarrow> nat \<Rightarrow> error + float64"
  FormatFloat :: "float64 \<Rightarrow> char \<Rightarrow> int \<Rightarrow> nat \<Rightarrow> string"
  float32_of_float64 :: "float64 \<Rightarrow> float32"
  float32_of_int :: "int \<Rightarrow> float32"
  int_of_float64 :: "float64 \<Rightarrow> int"
  float64_of_int32 :: "32 word \<Rightarrow> float64"
  float64_mul :: "float64 \<Rightarrow> float64 \<Rightarrow> float64"
  Getenv :: "string \<Rightarrow> string"
  yaml_Unmarshal :: "string \<Rightarrow> error + ServiceClass"

section \<open>The system data model (package config)\<close>

text \<open>
  The records carry the fields that the adapter code of utils.go writes. The nested
  one-field wrappers (\<^verbatim>\<open>Spec.Accelerators.Spec\<close>, \<^verbatim>\<open>Spec.Models.PerfData\<close>, ...) are
  flattened into the fields of \<open>SystemData\<close>.
\<close>

record AcceleratorSpec =
  as_Name :: string
  as_Type :: string
  as_Multiplicity :: int
  as_Power :: unit
  as_Cost :: float32

record DecodeParms =
  dp_Alpha :: float32
  dp_Beta :: float32

record PrefillParms =
  pp_Gamma :: float32
  pp_Delta :: float32

record ModelAcceleratorPerfData =
  pd_Name :: string
  pd_Acc :: string
  pd_AccCount :: int
  pd_MaxBatchSize :: int
  pd_DecodeParms :: DecodeParms
  pd_PrefillParms :: PrefillParms

record ModelTarget =
  mt_Model :: string
  mt_SLO_ITL :: float32
  mt_SLO_TTFT :: float32

record ServiceClassSpec =
  scs_Name :: string
  scs_Priority :: int
  scs_ModelTargets :: "ModelTarget list"

record ServerLoadSpec =
  sl_ArrivalRate :: float32
  sl_AvgInTokens :: int
  sl_AvgOutTokens :: int

record AllocationData =
  ad_Accelerator :: string
  ad_NumReplicas :: int
  ad_MaxBatch :: int
  ad_Cost :: float32
  ad_ITLAverage :: float32
  ad_TTFTAverage :: float32
  ad_Load :: ServerLoadSpec

record ServerSpec =
  ss_Name :: string
  ss_Class :: string
  ss_Model :: string
  ss_KeepAccelerator :: bool
  ss_MinNumReplicas :: int
  ss_MaxBatchSize :: int
  ss_CurrentAlloc :: AllocationData
  ss_DesiredAlloc :: AllocationData

record OptimizerSpec =
  os_Unlimited :: bool

typedecl AcceleratorCount

record SystemData =
  sd_Accelerators :: "AcceleratorSpec list"
  sd_PerfData :: "ModelAcceleratorPerfData list"
  sd_ServiceClasses :: "ServiceClassSpec list"
  sd_Servers :: "ServerSpec list"
  sd_Optimizer :: OptimizerSpec
  sd_Capacity :: "AcceleratorCount list"

record AllocationSolution =
  sol_Spec :: "(string, AllocationData) fmap"

text \<open>The zero value \<^verbatim>\<open>infernoConfig.AllocationData{}\<close>.\<close>

definition zero_AllocationData :: AllocationData where
  "zero_AllocationData =
     \<lparr>ad_Accelerator = [], ad_NumReplicas = 0, ad_MaxBatch = 0, ad_Cost = 0,
      ad_ITLAverage = 0, ad_TTFTAverage = 0,
      ad_Load = \<lparr>sl_ArrivalRate = 0, sl_AvgInTokens = 0, sl_AvgOutTokens = 0\<rparr>\<rparr>"

section \<open>The VariantAutoscaling resource (package v1alpha1)\<close>

text \<open>
  The source reads the resource in two layouts, which are modelled by two families of
  records, each restricted to the fields some modelled function reads or writes.
  \<^item> The type declarations (package v1alpha1) and the functions of the second listing of
    utils.go (lines 461 to 941) have \<^verbatim>\<open>Spec.VariantID\<close>, \<^verbatim>\<open>Spec.VariantProfile\<close>, a list
    \<^verbatim>\<open>Status.CurrentAllocs\<close>, and the load and latency averages at status level. These are
    the records \<open>Allocation\<close>, \<open>VariantAutoscalingSpec\<close>, \<open>VariantAutoscalingStatus\<close>,
    \<open>VariantAutoscaling\<close> and \<open>OptimizedAlloc\<close>.
  \<^item> The functions of the first listing of utils.go (lines 1 to 460) and collector.go
    have \<^verbatim>\<open>Spec.ModelProfile\<close>, \<^verbatim>\<open>Spec.EnableScaleToZero\<close>,
    \<^verbatim>\<open>Spec.ScaleToZeroPodRetentionPeriod\<close> and one \<^verbatim>\<open>Status.CurrentAlloc\<close> with the load
    and latency averages inside the allocation, as the API reference describes the
    resource. These are the records whose names end in \<open>_v1\<close>.
  A pointer field that may be nil is an \<open>option\<close>.
\<close>

record LoadProfile =
  lp_ArrivalRate :: string
  lp_AvgInputTokens :: string
  lp_AvgOutputTokens :: string

record PerfParms =
  pf_DecodeParms :: "(string, string) fmap"
  pf_PrefillParms :: "(string, string) fmap"

subsection \<open>The layout of the type declarations\<close>

record Allocation =
  al_VariantID :: string
  al_Accelerator :: string
  al_NumReplicas :: int
  al_MaxBatch :: int
  al_VariantCost :: string

record VariantProfile =
  vp_PerfParms :: PerfParms
  vp_MaxBatchSize :: int

record VariantAutoscalingSpec =
  spec_ModelID :: string
  spec_VariantID :: string
  spec_VariantProfile :: VariantProfile

record VariantAutoscalingStatus =
  st_Load :: LoadProfile
  st_ITLAverage :: string
  st_TTFTAverage :: string
  st_CurrentAllocs :: "Allocation list"

record VariantAutoscaling =
  va_Name :: string
  va_Namespace :: string
  va_Labels :: "(string, string) fmap"
  va_Spec :: VariantAutoscalingSpec
  va_Status :: VariantAutoscalingStatus

type_synonym Time = int

record OptimizedAlloc =
  oa_LastRunTime :: Time
  oa_VariantID :: string
  oa_Accelerator :: string
  oa_NumReplicas :: int

subsection \<open>The layout of the first listing and of the collector\<close>

record Allocation_v1 =
  a1_Accelerator :: string
  a1_NumReplicas :: int
  a1_MaxBatch :: int
  a1_VariantCost :: string
  a1_TTFTAverage :: string
  a1_ITLAverage :: string
  a1_Load :: LoadProfile

record AcceleratorProfile =
  ap_Acc :: string
  ap_AccCount :: int
  ap_PerfParms :: PerfParms
  ap_MaxBatchSize :: int

record VariantAutoscalingSpec_v1 =
  spec1_ModelID :: string
  spec1_ModelProfile_Accelerators :: "AcceleratorProfile list"
  spec1_EnableScaleToZero :: "bool option"
  spec1_ScaleToZeroPodRetentionPeriod :: "int option"

record VariantAutoscalingStatus_v1 =
  st1_CurrentAlloc :: Allocation_v1

record VariantAutoscaling_v1 =
  va1_Name :: string
  va1_Namespace :: string
  va1_Labels :: "(string, string) fmap"
  va1_Spec :: VariantAutoscalingSpec_v1
  va1_Status :: VariantAutoscalingStatus_v1

text \<open>
  The zero value \<^verbatim>\<open>llmdVariantAutoscalingV1alpha1.Allocation{}\<close> that the collector
  returns.
\<close>

definition zero_Allocation_v1 :: Allocation_v1 where
  "zero_Allocation_v1 =
     \<lparr>a1_Accelerator = [], a1_NumReplicas = 0, a1_MaxBatch = 0,
      a1_VariantCost = [], a1_TTFTAverage = [], a1_ITLAverage = [],
      a1_Load = \<lparr>lp_ArrivalRate = [], lp_AvgInputTokens = [], lp_AvgOutputTokens = []\<rparr>\<rparr>"

section \<open>utils.go: scale-to-zero configuration\<close>

text \<open>\<^verbatim>\<open>IsScaleToZeroEnabled\<close> (utils.go, line 61).\<close>

definition IsScaleToZeroEnabled :: "go_lib \<Rightarrow> VariantAutoscaling_v1 \<Rightarrow> bool" where
  "IsScaleToZeroEnabled L va =
     (case spec1_EnableScaleToZero (va1_Spec va) of
        Some b \<Rightarrow> b
      | None \<Rightarrow> EqualFold (Getenv L ''WVA_SCALE_TO_ZERO'') ''true'')"

text \<open>\<^verbatim>\<open>GetScaleToZeroRetentionPeriod\<close> (utils.go, line 75).\<close>

definition GetScaleToZeroRetentionPeriod :: "VariantAutoscaling_v1 \<Rightarrow> int" where
  "GetScaleToZeroRetentionPeriod va =
     (case spec1_ScaleToZeroPodRetentionPeriod (va1_Spec va) of Some d \<Rightarrow> d | None \<Rightarrow> 0)"

text \<open>\<^verbatim>\<open>GetMinNumReplicas\<close> (utils.go, line 84).\<close>

definition GetMinNumReplicas :: "go_lib \<Rightarrow> VariantAutoscaling_v1 \<Rightarrow> int" where
  "GetMinNumReplicas L va = (if IsScaleToZeroEnabled L va then 0 else 1)"

section \<open>utils.go: building the system data\<close>

text \<open>
  \<^verbatim>\<open>CreateSystemData\<close> (utils.go, line 142; the same text at line 568). A Go map is
  ranged over in an order the runtime chooses; each configuration map is given as the
  list of its entries in the order of that run, so its keys are distinct. The two loops
  append to \<^verbatim>\<open>acceleratorData\<close> and \<^verbatim>\<open>serviceClassData\<close>; a \<^verbatim>\<open>continue\<close> leaves the
  slice as it is. Warnings are logged only.
\<close>

fun accelerator_loop ::
  "go_lib \<Rightarrow> (string \<times> (string, string) fmap) list \<Rightarrow> AcceleratorSpec list \<Rightarrow> AcceleratorSpec list"
where
  "accelerator_loop L [] acceleratorData = acceleratorData"
| "accelerator_loop L ((key, val) # rest) acceleratorData =
     (case ParseFloat L (map_index val ''cost'') 32 of
        Inl err \<Rightarrow> accelerator_loop L rest acceleratorData
      | Inr cost \<Rightarrow>
          accelerator_loop L rest
            (acceleratorData @
               [\<lparr>as_Name = key, as_Type = map_index val ''device'', as_Multiplicity = 1,
                 as_Power = (), as_Cost = float32_of_float64 L cost\<rparr>]))"

definition model_target :: "go_lib \<Rightarrow> ServiceClassEntry \<Rightarrow> ModelTarget" where
  "model_target L entry =
     \<lparr>mt_Model = sce_Model entry,
      mt_SLO_ITL = float32_of_int L (sce_SLOTPOT entry),
      mt_SLO_TTFT = float32_of_int L (sce_SLOTTFT entry)\<rparr>"

fun service_class_loop ::
  "go_lib \<Rightarrow> (string \<times> string) list \<Rightarrow> ServiceClassSpec list \<Rightarrow> ServiceClassSpec list"
where
  "service_class_loop L [] serviceClassData = serviceClassData"
| "service_class_loop L ((key, val) # rest) serviceClassData =
     (case yaml_Unmarshal L val of
        Inl err \<Rightarrow> service_class_loop L rest serviceClassData
      | Inr sc \<Rightarrow>
          service_class_loop L rest
            (serviceClassData @
               [\<lparr>scs_Name = sc_Name sc, scs_Priority = sc_Priority sc,
                 scs_ModelTargets = map (model_target L) (sc_Data sc)\<rparr>]))"

definition CreateSystemData ::
  "go_lib \<Rightarrow> (string \<times> (string, string) fmap) list \<Rightarrow> (string \<times> string) list \<Rightarrow> SystemData"
where
  "CreateSystemData L acceleratorCm serviceClassCm =
     \<lparr>sd_Accelerators = accelerator_loop L acceleratorCm [],
      sd_PerfData = [],
      sd_ServiceClasses = service_class_loop L serviceClassCm [],
      sd_Servers = [],
      sd_Optimizer = \<lparr>os_Unlimited = True\<rparr>,
      sd_Capacity = []\<rparr>"

text \<open>
  The functions below take \<^verbatim>\<open>sd *SystemData\<close> and return an \<^verbatim>\<open>error\<close>. The model passes
  the system data in and returns it, as the call leaves it, with the error (\<open>None\<close> is
  \<^verbatim>\<open>nil\<close>). The profile and the resource are passed by pointers that the callers take of
  existing values; they are modelled by those values.
\<close>

text \<open>\<^verbatim>\<open>AddModelAcceleratorProfileToSystemData\<close> (utils.go, line 219).\<close>

definition AddModelAcceleratorProfileToSystemData ::
  "go_lib \<Rightarrow> SystemData \<Rightarrow> string \<Rightarrow> AcceleratorProfile \<Rightarrow> SystemData \<times> error option"
where
  "AddModelAcceleratorProfileToSystemData L sd modelName modelAcceleratorProfile =
     (let decodeParms = pf_DecodeParms (ap_PerfParms modelAcceleratorProfile) in
      if map_len decodeParms < 2
      then (sd, Some (Error ''length of decodeParms should be 2''))
      else
       (case ParseFloat L (map_index decodeParms ''alpha'') 32 of
          Inl err \<Rightarrow> (sd, Some err)
        | Inr alpha \<Rightarrow>
       (case ParseFloat L (map_index decodeParms ''beta'') 32 of
          Inl err \<Rightarrow> (sd, Some err)
        | Inr beta \<Rightarrow>
       (let prefillParms = pf_PrefillParms (ap_PerfParms modelAcceleratorProfile) in
        if map_len prefillParms < 2
        then (sd, Some (Error ''length of prefillParms should be 2''))
        else
         (case ParseFloat L (map_index prefillParms ''gamma'') 32 of
            Inl err \<Rightarrow> (sd, Some err)
          | Inr gamma \<Rightarrow>
         (case ParseFloat L (map_index prefillParms ''delta'') 32 of
            Inl err \<Rightarrow> (sd, Some err)
          | Inr delta \<Rightarrow>
            (sd\<lparr>sd_PerfData := sd_PerfData sd @
                 [\<lparr>pd_Name = modelName,
                   pd_Acc = ap_Acc modelAcceleratorProfile,
                   pd_AccCount = ap_AccCount modelAcceleratorProfile,
                   pd_MaxBatchSize = ap_MaxBatchSize modelAcceleratorProfile,
                   pd_DecodeParms =
                     \<lparr>dp_Alpha = float32_of_float64 L alpha, dp_Beta = float32_of_float64 L beta\<rparr>,
                   pd_PrefillParms =
                     \<lparr>pp_Gamma = float32_of_float64 L gamma,
                      pp_Delta = float32_of_float64 L delta\<rparr>\<rparr>]\<rparr>,
             None)))))))"

text \<open>\<^verbatim>\<open>AddVariantProfileToSystemData\<close> (utils.go, line 645).\<close>

definition AddVariantProfileToSystemData ::
  "go_lib \<Rightarrow> SystemData \<Rightarrow> string \<Rightarrow> string \<Rightarrow> int \<Rightarrow> VariantProfile \<Rightarrow>
   SystemData \<times> error option"
where
  "AddVariantProfileToSystemData L sd modelName accelerator acceleratorCount variantProfile =
     (let decodeParms = pf_DecodeParms (vp_PerfParms variantProfile) in
      if map_len decodeParms < 2
      then (sd, Some (Error ''length of decodeParms should be 2''))
      else
       (case ParseFloat L (map_index decodeParms ''alpha'') 32 of
          Inl err \<Rightarrow> (sd, Some err)
        | Inr alpha \<Rightarrow>
       (case ParseFloat L (map_index decodeParms ''beta'') 32 of
          Inl err \<Rightarrow> (sd, Some err)
        | Inr beta \<Rightarrow>
       (let prefillParms = pf_PrefillParms (vp_PerfParms variantProfile) in
        if map_len prefillParms < 2
        then (sd, Some (Error ''length of prefillParms should be 2''))
        else
         (case ParseFloat L (map_index prefillParms ''gamma'') 32 of
            Inl err \<Rightarrow> (sd, Some err)
          | Inr gamma \<Rightarrow>
         (case ParseFloat L (map_index prefillParms ''delta'') 32 of
            Inl err \<Rightarrow> (sd, Some err)
          | Inr delta \<Rightarrow>
            (sd\<lparr>sd_PerfData := sd_PerfData sd @
                 [\<lparr>pd_Name = modelName,
                   pd_Acc = accelerator,
                   pd_AccCount = acceleratorCount,
                   pd_MaxBatchSize = vp_MaxBatchSize variantProfile,
                   pd_DecodeParms =
                     \<lparr>dp_Alpha = float32_of_float64 L alpha, dp_Beta = float32_of_float64 L beta\<rparr>,
                   pd_PrefillParms =
                     \<lparr>pp_Gamma = float32_of_float64 L gamma,
                      pp_Delta = float32_of_float64 L delta\<rparr>\<rparr>]\<rparr>,
             None)))))))"

text \<open>
  The statement that \<^verbatim>\<open>AddServerInfoToSystemData\<close> repeats for each numeric status field:
  \<^verbatim>\<open>if x, err = strconv.ParseFloat(s, 32); err != nil || !CheckValue(x) { x = 0 }\<close>.
\<close>

definition parse_checked :: "go_lib \<Rightarrow> string \<Rightarrow> float64" where
  "parse_checked L s =
     (case ParseFloat L s 32 of
        Inl err \<Rightarrow> 0
      | Inr x \<Rightarrow> if \<not> CheckValue x then 0 else x)"

text \<open>
  \<^verbatim>\<open>AddServerInfoToSystemData\<close> of the second listing (utils.go, line 699): load and
  latency averages at status level, the first of \<^verbatim>\<open>Status.CurrentAllocs\<close>, and the
  replica floor read from the environment.
\<close>

definition AddServerInfoToSystemData ::
  "go_lib \<Rightarrow> SystemData \<Rightarrow> VariantAutoscaling \<Rightarrow> string \<Rightarrow> SystemData \<times> error option"
where
  "AddServerInfoToSystemData L sd va className =
     (let arrivalRate = parse_checked L (lp_ArrivalRate (st_Load (va_Status va)));
          avgOutputTokens = parse_checked L (lp_AvgOutputTokens (st_Load (va_Status va)));
          avgInputTokens = parse_checked L (lp_AvgInputTokens (st_Load (va_Status va)));
          serverLoadSpec =
            \<lparr>sl_ArrivalRate = float32_of_float64 L arrivalRate,
             sl_AvgInTokens = int_of_float64 L avgInputTokens,
             sl_AvgOutTokens = int_of_float64 L avgOutputTokens\<rparr>
      in
      case st_CurrentAllocs (va_Status va) of
        [] \<Rightarrow>
          (sd, Some (Error (''no current allocations found for variant '' @ va_Name va)))
      | currentAlloc # _ \<Rightarrow>
          let cost = parse_checked L (al_VariantCost currentAlloc);
              itlAverage = parse_checked L (st_ITLAverage (va_Status va));
              ttftAverage = parse_checked L (st_TTFTAverage (va_Status va));
              AllocationData =
                \<lparr>ad_Accelerator = al_Accelerator currentAlloc,
                 ad_NumReplicas = al_NumReplicas currentAlloc,
                 ad_MaxBatch = al_MaxBatch currentAlloc,
                 ad_Cost = float32_of_float64 L cost,
                 ad_ITLAverage = float32_of_float64 L itlAverage,
                 ad_TTFTAverage = float32_of_float64 L ttftAverage,
                 ad_Load = serverLoadSpec\<rparr>;
              minNumReplicas = (if Getenv L ''WVA_SCALE_TO_ZERO'' = ''true'' then 0 else 1);
              serverSpec =
                \<lparr>ss_Name = FullName (va_Name va) (va_Namespace va),
                 ss_Class = className,
                 ss_Model = spec_ModelID (va_Spec va),
                 ss_KeepAccelerator = True,
                 ss_MinNumReplicas = minNumReplicas,
                 ss_MaxBatchSize =
                   (if vp_MaxBatchSize (spec_VariantProfile (va_Spec va)) > 0
                    then vp_MaxBatchSize (spec_VariantProfile (va_Spec va)) else 0),
                 ss_CurrentAlloc = AllocationData,
                 ss_DesiredAlloc = zero_AllocationData\<rparr>
          in (sd\<lparr>sd_Servers := sd_Servers sd @ [serverSpec]\<rparr>, None))"

text \<open>
  \<^verbatim>\<open>AddServerInfoToSystemData\<close> of the first listing (utils.go, line 271): everything is
  read from \<^verbatim>\<open>Status.CurrentAlloc\<close>, the replica floor is \<^verbatim>\<open>GetMinNumReplicas(va)\<close>, and
  the batch size is that of the first accelerator profile named by the resource's
  accelerator label. It has no error return other than \<^verbatim>\<open>nil\<close>. The retention period is
  read for a debug log only.
\<close>

definition AddServerInfoToSystemData_v1 ::
  "go_lib \<Rightarrow> SystemData \<Rightarrow> VariantAutoscaling_v1 \<Rightarrow> string \<Rightarrow> SystemData \<times> error option"
where
  "AddServerInfoToSystemData_v1 L sd va className =
     (let currentAlloc = st1_CurrentAlloc (va1_Status va);
          arrivalRate = parse_checked L (lp_ArrivalRate (a1_Load currentAlloc));
          avgOutputTokens = parse_checked L (lp_AvgOutputTokens (a1_Load currentAlloc));
          avgInputTokens = parse_checked L (lp_AvgInputTokens (a1_Load currentAlloc));
          serverLoadSpec =
            \<lparr>sl_ArrivalRate = float32_of_float64 L arrivalRate,
             sl_AvgInTokens = int_of_float64 L avgInputTokens,
             sl_AvgOutTokens = int_of_float64 L avgOutputTokens\<rparr>;
          cost = parse_checked L (a1_VariantCost currentAlloc);
          itlAverage = parse_checked L (a1_ITLAverage currentAlloc);
          ttftAverage = parse_checked L (a1_TTFTAverage currentAlloc);
          AllocationData =
            \<lparr>ad_Accelerator = a1_Accelerator currentAlloc,
             ad_NumReplicas = a1_NumReplicas currentAlloc,
             ad_MaxBatch = a1_MaxBatch currentAlloc,
             ad_Cost = float32_of_float64 L cost,
             ad_ITLAverage = float32_of_float64 L itlAverage,
             ad_TTFTAverage = float32_of_float64 L ttftAverage,
             ad_Load = serverLoadSpec\<rparr>;
          minNumReplicas = GetMinNumReplicas L va;
          accName = map_index (va1_Labels va) ''inference.optimization/acceleratorName'';
          maxBatchSize =
            (case find (\<lambda>ap. ap_Acc ap = accName)
                    (spec1_ModelProfile_Accelerators (va1_Spec va)) of
               None \<Rightarrow> 0
             | Some ap \<Rightarrow> ap_MaxBatchSize ap);
          serverSpec =
            \<lparr>ss_Name = FullName (va1_Name va) (va1_Namespace va),
             ss_Class = className,
             ss_Model = spec1_ModelID (va1_Spec va),
             ss_KeepAccelerator = True,
             ss_MinNumReplicas = minNumReplicas,
             ss_MaxBatchSize = (if maxBatchSize > 0 then maxBatchSize else 0),
             ss_CurrentAlloc = AllocationData,
             ss_DesiredAlloc = zero_AllocationData\<rparr>
      in (sd\<lparr>sd_Servers := sd_Servers sd @ [serverSpec]\<rparr>, None))"

text \<open>
  \<^verbatim>\<open>CreateOptimizedAlloc\<close> (utils.go, line 356; the same text at line 775). \<open>now\<close> is what
  \<^verbatim>\<open>time.Now()\<close> returns in the call. The result is \<open>Inl err\<close> for \<^verbatim>\<open>(nil, err)\<close> and
  \<open>Inr a\<close> for a pointer to \<open>a\<close> with a nil error. The function does not set the
  \<^verbatim>\<open>VariantID\<close> field that the type declaration has, which keeps its zero value.
\<close>

definition CreateOptimizedAlloc ::
  "string \<Rightarrow> string \<Rightarrow> AllocationSolution \<Rightarrow> Time \<Rightarrow> error + OptimizedAlloc"
where
  "CreateOptimizedAlloc name namespace allocationSolution now =
     (let serverName = FullName name namespace in
      case fmlookup (sol_Spec allocationSolution) serverName of
        None \<Rightarrow> Inl (Error (''server '' @ serverName @ '' not found''))
      | Some allocationData \<Rightarrow>
          Inr \<lparr>oa_LastRunTime = now, oa_VariantID = [],
               oa_Accelerator = ad_Accelerator allocationData,
               oa_NumReplicas = ad_NumReplicas allocationData\<rparr>)"

section \<open>collector.go: collecting metrics for a variant\<close>

text \<open>
  A Prometheus query answers with an error or with a value whose type is one of the
  \<^verbatim>\<open>model.ValueType\<close>s; an instant vector is the list of its sample values. The API is a
  function from the query text to the answer. The metric and label names of the package
  \<^verbatim>\<open>constants\<close> are parameters.
\<close>

datatype model_Value = ValNone | ValScalar | ValVector "float64 list" | ValMatrix | ValString

record constants =
  VLLMRequestSuccessTotal :: string
  VLLMRequestGenerationTokensSum :: string
  VLLMRequestGenerationTokensCount :: string
  VLLMRequestQueueTimeSecondsSum :: string
  VLLMRequestQueueTimeSecondsCount :: string
  VLLMTimePerOutputTokenSecondsSum :: string
  VLLMTimePerOutputTokenSecondsCount :: string
  LabelModelName :: string
  LabelNamespace :: string

text \<open>
  A Deployment, with the fields the collector reads; \<^verbatim>\<open>Spec.Replicas\<close> is a pointer to
  an \<^verbatim>\<open>int32\<close>.
\<close>

record Deployment =
  dep_Name :: string
  dep_Namespace :: string
  dep_Replicas :: "32 word option"

text \<open>A call either panics or returns.\<close>

datatype 'a go_result = Panics | Returns 'a

text \<open>
  The text \<^verbatim>\<open>sum(rate(%s{%s="%s",%s="%s"}[1m]))\<close> that every query is built from.
\<close>

definition sum_rate :: "constants \<Rightarrow> string \<Rightarrow> string \<Rightarrow> string \<Rightarrow> string" where
  "sum_rate C metric modelName deployNamespace =
     ''sum(rate('' @ metric @ ''{'' @ LabelModelName C @ ''='' @ [CHR 0x22] @ modelName @
     [CHR 0x22] @ '','' @ LabelNamespace C @ ''='' @ [CHR 0x22] @ deployNamespace @
     [CHR 0x22] @ ''}[1m]))''"

definition arrival_query :: "constants \<Rightarrow> string \<Rightarrow> string \<Rightarrow> string" where
  "arrival_query C modelName deployNamespace =
     sum_rate C (VLLMRequestSuccessTotal C) modelName deployNamespace @ '' * 60''"

definition ratio_query :: "constants \<Rightarrow> string \<Rightarrow> string \<Rightarrow> string \<Rightarrow> string \<Rightarrow> string" where
  "ratio_query C sumMetric countMetric modelName deployNamespace =
     sum_rate C sumMetric modelName deployNamespace @ ''/'' @
     sum_rate C countMetric modelName deployNamespace"

text \<open>The \<^verbatim>\<open>float64\<close> constant \<^verbatim>\<open>1000\<close>.\<close>

definition f64_1000 :: float64 where
  "f64_1000 = 0x408F400000000000"

text \<open>
  \<^verbatim>\<open>AddMetricsToOptStatus\<close> (collector.go, line 74). The function returns an
  \<^verbatim>\<open>Allocation\<close> and an \<^verbatim>\<open>error\<close>. The first two queries return from the function in
  their \<^verbatim>\<open>else\<close> branch, which is taken when the query fails and also when it answers
  with a value that is not a vector (then the error returned is \<^verbatim>\<open>nil\<close>); the last two
  only log a warning there. Dereferencing \<^verbatim>\<open>deployment.Spec.Replicas\<close> panics when the
  pointer is nil.
\<close>

definition AddMetricsToOptStatus ::
  "go_lib \<Rightarrow> constants \<Rightarrow> (string \<Rightarrow> error + model_Value) \<Rightarrow> VariantAutoscaling_v1 \<Rightarrow>
   Deployment \<Rightarrow> float64 \<Rightarrow> (Allocation_v1 \<times> error option) go_result"
where
  "AddMetricsToOptStatus L C promAPI opt deployment acceleratorCostVal =
     (let deployNamespace = dep_Namespace deployment;
          modelName = spec1_ModelID (va1_Spec opt);
          arrivalQuery = arrival_query C modelName deployNamespace;
          avgDecToksQuery =
            ratio_query C (VLLMRequestGenerationTokensSum C)
              (VLLMRequestGenerationTokensCount C) modelName deployNamespace;
          ttftQuery =
            ratio_query C (VLLMRequestQueueTimeSecondsSum C)
              (VLLMRequestQueueTimeSecondsCount C) modelName deployNamespace;
          itlQuery =
            ratio_query C (VLLMTimePerOutputTokenSecondsSum C)
              (VLLMTimePerOutputTokenSecondsCount C) modelName deployNamespace
      in
      (case promAPI arrivalQuery of
         Inl err \<Rightarrow> Returns (zero_Allocation_v1, Some err)
       | Inr (ValVector vec) \<Rightarrow>
          (let arrivalVal = FixValue (case vec of [] \<Rightarrow> 0 | v # _ \<Rightarrow> v);
               avgInputTokens = 0
           in
           (case promAPI avgDecToksQuery of
              Inl err \<Rightarrow> Returns (zero_Allocation_v1, Some err)
            | Inr (ValVector vec) \<Rightarrow>
               (let avgOutputTokens = FixValue (case vec of [] \<Rightarrow> 0 | v # _ \<Rightarrow> v);
                    ttftAverageTime =
                      FixValue
                        (case promAPI ttftQuery of
                           Inr (ValVector vec) \<Rightarrow>
                             (case vec of [] \<Rightarrow> 0 | v # _ \<Rightarrow> float64_mul L v f64_1000)
                         | _ \<Rightarrow> 0);
                    itlAverage =
                      FixValue
                        (case promAPI itlQuery of
                           Inr (ValVector vec) \<Rightarrow>
                             (case vec of [] \<Rightarrow> 0 | v # _ \<Rightarrow> float64_mul L v f64_1000)
                         | _ \<Rightarrow> 0)
                in
                (case dep_Replicas deployment of
                   None \<Rightarrow> Panics
                 | Some replicas \<Rightarrow>
                    (let numReplicas = sint replicas;
                         acc = map_index (va1_Labels opt) ''inference.optimization/acceleratorName'';
                         discoveredCost =
                           float64_mul L (float64_of_int32 L replicas) acceleratorCostVal;
                         maxBatch = 256
                     in
                     Returns
                       (\<lparr>a1_Accelerator = acc,
                         a1_NumReplicas = numReplicas,
                         a1_MaxBatch = maxBatch,
                         a1_VariantCost = FormatFloat L discoveredCost CHR ''f'' 2 32,
                         a1_TTFTAverage = FormatFloat L ttftAverageTime CHR ''f'' 2 32,
                         a1_ITLAverage = FormatFloat L itlAverage CHR ''f'' 2 32,
                         a1_Load =
                           \<lparr>lp_ArrivalRate = FormatFloat L arrivalVal CHR ''f'' 2 32,
                            lp_AvgInputTokens = FormatFloat L avgInputTokens CHR ''f'' 2 32,
                            lp_AvgOutputTokens = FormatFloat L avgOutputTokens CHR ''f'' 2 32\<rparr>\<rparr>,
                        None))))
            | Inr _ \<Rightarrow> Returns (zero_Allocation_v1, None)))
       | Inr _ \<Rightarrow> Returns (zero_Allocation_v1, None)))"

section \<open>The optimization engine\<close>

text \<open>
  \<^verbatim>\<open>VariantAutoscalingsEngine.Optimize\<close> (package optimizer). The manager and the system
  of the engine belong to packages that are not part of the adapter code; what their
  calls return is given to the model: \<open>managerOptimize\<close> is the error returned by
  \<^verbatim>\<open>engine.manager.Optimize()\<close> and \<open>generateSolution\<close> the pointer returned by
  \<^verbatim>\<open>engine.system.GenerateSolution()\<close>, \<open>None\<close> for \<^verbatim>\<open>nil\<close>. The engine calls
  \<^verbatim>\<open>utils.CreateOptimizedAlloc\<close> with the variant id as a fourth argument; utils.go
  declares the function with three parameters, so the callee is the parameter \<open>create\<close>
  of the model. \<open>clock i\<close> is the time that a call of \<^verbatim>\<open>time.Now()\<close> made for the \<open>i\<close>-th
  item of the list returns. The returned map is \<open>None\<close> for a nil map.
\<close>

type_synonym create_fun =
  "string \<Rightarrow> string \<Rightarrow> string \<Rightarrow> AllocationSolution \<Rightarrow> Time \<Rightarrow> error + OptimizedAlloc"

fun optimize_loop ::
  "create_fun \<Rightarrow> AllocationSolution \<Rightarrow> (nat \<Rightarrow> Time) \<Rightarrow> nat \<Rightarrow> VariantAutoscaling list \<Rightarrow>
   (string, OptimizedAlloc) fmap \<Rightarrow> (string, OptimizedAlloc) fmap"
where
  "optimize_loop create allocationSolution clock i [] optimizedAllocMap = optimizedAllocMap"
| "optimize_loop create allocationSolution clock i (va # rest) optimizedAllocMap =
     (let vaName = va_Name va;
          vaNamespace = va_Namespace va;
          variantID = spec_VariantID (va_Spec va)
      in
      optimize_loop create allocationSolution clock (Suc i) rest
        (case create vaName vaNamespace variantID allocationSolution (clock i) of
           Inr optimizedAllocation \<Rightarrow> fmupd vaName optimizedAllocation optimizedAllocMap
         | Inl err \<Rightarrow> optimizedAllocMap))"

definition Optimize ::
  "create_fun \<Rightarrow> error option \<Rightarrow> AllocationSolution option \<Rightarrow> VariantAutoscaling list \<Rightarrow>
   (nat \<Rightarrow> Time) \<Rightarrow> (string, OptimizedAlloc) fmap option \<times> error option"
where
  "Optimize create managerOptimize generateSolution vaList clock =
     (case managerOptimize of
        Some err \<Rightarrow> (Some fmempty, Some err)
      | None \<Rightarrow>
         (case generateSolution of
            None \<Rightarrow>
              (Some fmempty, Some (Error ''no feasible allocations found for all variants''))
          | Some allocationSolution \<Rightarrow>
              if map_len (sol_Spec allocationSolution) = 0
              then (Some fmempty, Some (Error ''no feasible allocations found for all variants''))
              else (Some (optimize_loop create allocationSolution clock 0 vaList fmempty), None)))"

text \<open>
  Modelled from the spec: the four-argument \<^verbatim>\<open>utils.CreateOptimizedAlloc\<close> that the engine
  calls, which is not among the source files (utils.go has the three-argument function
  above). The specification (section 6) gives a desired allocation a time stamp, an
  accelerator and a replica count, and the type declaration gives it the id of the
  variant it belongs to. The model is the three-argument function, with the
  \<^verbatim>\<open>VariantID\<close> of the result set to the variant id passed.
\<close>

definition CreateOptimizedAlloc_variant :: create_fun where
  "CreateOptimizedAlloc_variant name namespace variantID allocationSolution now =
     (case CreateOptimizedAlloc name namespace allocationSolution now of
        Inl err \<Rightarrow> Inl err
      | Inr optimizedAlloc \<Rightarrow> Inr (optimizedAlloc\<lparr>oa_VariantID := variantID\<rparr>))"

section \<open>The allocation optimizer\<close>

















section \<open>Predicates of the specification\<close>

text \<open>A string parses when \<^verbatim>\<open>strconv.ParseFloat(s, 32)\<close> returns a nil error.\<close>

definition parses :: "go_lib \<Rightarrow> string \<Rightarrow> bool" where
  "parses L s = (case ParseFloat L s 32 of Inl err \<Rightarrow> False | Inr x \<Rightarrow> True)"

text \<open>
  Sanitizing a decimal string on entry to the data model: the parsed value when the string
  parses to a finite number, zero when it does not parse or parses to a NaN or an
  infinity.
\<close>

definition sanitized :: "go_lib \<Rightarrow> string \<Rightarrow> float64" where
  "sanitized L s =
     (case ParseFloat L s 32 of
        Inl err \<Rightarrow> 0
      | Inr x \<Rightarrow> if is_finite x then x else 0)"

text \<open>
  A performance profile is malformed when a parameter map has fewer than two entries or
  one of the four coefficients does not parse.
\<close>

definition malformed :: "go_lib \<Rightarrow> PerfParms \<Rightarrow> bool" where
  "malformed L p =
     (map_len (pf_DecodeParms p) < 2 \<or> map_len (pf_PrefillParms p) < 2 \<or>
      \<not> parses L (map_index (pf_DecodeParms p) ''alpha'') \<or>
      \<not> parses L (map_index (pf_DecodeParms p) ''beta'') \<or>
      \<not> parses L (map_index (pf_PrefillParms p) ''gamma'') \<or>
      \<not> parses L (map_index (pf_PrefillParms p) ''delta''))"

text \<open>
  Scale-to-zero is enabled for a variant by its own setting when it has one, and by the
  global setting otherwise; the replica floor is 0 when it is enabled and 1 when not.
\<close>

definition scale_to_zero_enabled :: "bool option \<Rightarrow> bool \<Rightarrow> bool" where
  "scale_to_zero_enabled variantSetting globalSetting =
     (case variantSetting of Some enabled \<Rightarrow> enabled | None \<Rightarrow> globalSetting)"

definition replica_floor :: "bool option \<Rightarrow> bool \<Rightarrow> int" where
  "replica_floor variantSetting globalSetting =
     (if scale_to_zero_enabled variantSetting globalSetting then 0 else 1)"


section \<open>Worked inputs\<close>

text \<open>
  A small table stands for the library in the worked inputs: it parses and prints the
  numbers 0, 1 and 2, \<^verbatim>\<open>NaN\<close> and \<^verbatim>\<open>Inf\<close>, and has no environment variable set.
\<close>

definition f64_1 :: float64 where
  "f64_1 = 0x3FF0000000000000"

definition f64_2 :: float64 where
  "f64_2 = 0x4000000000000000"

definition f64_NaN :: float64 where
  "f64_NaN = 0x7FF8000000000001"

definition table_ParseFloat :: "string \<Rightarrow> nat \<Rightarrow> error + float64" where
  "table_ParseFloat s bitSize =
     (if s = ''0'' then Inr 0
      else if s = ''1'' then Inr f64_1
      else if s = ''2'' then Inr f64_2
      else if s = ''NaN'' then Inr f64_NaN
      else if s = ''Inf'' then Inr PosInf
      else Inl (Error ''invalid syntax''))"

definition table_FormatFloat :: "float64 \<Rightarrow> char \<Rightarrow> int \<Rightarrow> nat \<Rightarrow> string" where
  "table_FormatFloat x fmt prec bitSize =
     (if x = 0 then ''0.00''
      else if x = f64_1 then ''1.00''
      else if x = f64_2 then ''2.00''
      else if x = PosInf then ''+Inf''
      else ''NaN'')"

definition table_float32 :: "float64 \<Rightarrow> float32" where
  "table_float32 x =
     (if x = 0 then 0
      else if x = f64_1 then 0x3F800000
      else if x = f64_2 then 0x40000000
      else if x = PosInf then 0x7F800000
      else 0x7FC00000)"

definition table_float32_of_int :: "int \<Rightarrow> float32" where
  "table_float32_of_int n = (if n = 0 then 0 else if n = 1 then 0x3F800000 else 0x40000000)"

definition table_int :: "float64 \<Rightarrow> int" where
  "table_int x = (if x = f64_1 then 1 else if x = f64_2 then 2 else 0)"

definition table_float64_of_int32 :: "32 word \<Rightarrow> float64" where
  "table_float64_of_int32 n = (if n = 0 then 0 else if n = 1 then f64_1 else f64_2)"

definition table_mul :: "float64 \<Rightarrow> float64 \<Rightarrow> float64" where
  "table_mul x y =
     (if x = 0 \<or> y = 0 then 0 else if x = f64_1 then y else if y = f64_1 then x else f64_NaN)"

definition table_Getenv :: "string \<Rightarrow> string" where
  "table_Getenv name = []"

definition table_Unmarshal :: "string \<Rightarrow> error + ServiceClass" where
  "table_Unmarshal s =
     (if s = ''name: Premium''
      then Inr \<lparr>sc_Name = ''Premium'', sc_Priority = 1, sc_Data = []\<rparr>
      else Inl (Error ''yaml: unmarshal errors''))"

definition table_lib :: go_lib where
  "table_lib =
     \<lparr>ParseFloat = table_ParseFloat, FormatFloat = table_FormatFloat,
      float32_of_float64 = table_float32, float32_of_int = table_float32_of_int,
      int_of_float64 = table_int, float64_of_int32 = table_float64_of_int32,
      float64_mul = table_mul, Getenv = table_Getenv, yaml_Unmarshal = table_Unmarshal\<rparr>"

definition table_constants :: constants where
  "table_constants =
     \<lparr>VLLMRequestSuccessTotal = ''vllm:request_success_total'',
      VLLMRequestGenerationTokensSum = ''vllm:request_generation_tokens_sum'',
      VLLMRequestGenerationTokensCount = ''vllm:request_generation_tokens_count'',
      VLLMRequestQueueTimeSecondsSum = ''vllm:request_queue_time_seconds_sum'',
      VLLMRequestQueueTimeSecondsCount = ''vllm:request_queue_time_seconds_count'',
      VLLMTimePerOutputTokenSecondsSum = ''vllm:time_per_output_token_seconds_sum'',
      VLLMTimePerOutputTokenSecondsCount = ''vllm:time_per_output_token_seconds_count'',
      LabelModelName = ''model_name'',
      LabelNamespace = ''namespace''\<rparr>"

text \<open>An empty system data, as \<^verbatim>\<open>CreateSystemData\<close> builds it from empty maps.\<close>

definition sd0 :: SystemData where
  "sd0 = CreateSystemData table_lib [] []"

text \<open>Performance parameters: a complete set, and one whose decode map lacks \<^verbatim>\<open>beta\<close>.\<close>

definition parms_ok :: PerfParms where
  "parms_ok =
     \<lparr>pf_DecodeParms = fmap_of_list [(''alpha'', ''1''), (''beta'', ''2'')],
      pf_PrefillParms = fmap_of_list [(''gamma'', ''1''), (''delta'', ''0'')]\<rparr>"

definition parms_short :: PerfParms where
  "parms_short =
     \<lparr>pf_DecodeParms = fmap_of_list [(''alpha'', ''1'')],
      pf_PrefillParms = fmap_of_list [(''gamma'', ''1''), (''delta'', ''0'')]\<rparr>"

text \<open>
  A variant with one current allocation whose cost reads \<^verbatim>\<open>NaN\<close>, an arrival rate that
  does not parse and an ITL average that reads \<^verbatim>\<open>Inf\<close>.
\<close>

definition alloc0 :: Allocation where
  "alloc0 =
     \<lparr>al_VariantID = ''m-A100-1'', al_Accelerator = ''A100'', al_NumReplicas = 2,
      al_MaxBatch = 256, al_VariantCost = ''NaN''\<rparr>"

definition va0 :: VariantAutoscaling where
  "va0 =
     \<lparr>va_Name = ''test'', va_Namespace = ''default'',
      va_Labels = fmap_of_list [(''inference.optimization/acceleratorName'', ''A100'')],
      va_Spec =
        \<lparr>spec_ModelID = ''default/default'', spec_VariantID = ''m-A100-1'',
         spec_VariantProfile = \<lparr>vp_PerfParms = parms_ok, vp_MaxBatchSize = 8\<rparr>\<rparr>,
      va_Status =
        \<lparr>st_Load = \<lparr>lp_ArrivalRate = ''abc'', lp_AvgInputTokens = ''1'',
                    lp_AvgOutputTokens = ''2''\<rparr>,
         st_ITLAverage = ''Inf'', st_TTFTAverage = ''1'',
         st_CurrentAllocs = [alloc0]\<rparr>\<rparr>"

text \<open>
  The same variant in the layout of the first listing, without a scale-to-zero setting
  of its own, with scale-to-zero enabled and with scale-to-zero disabled.
\<close>

definition va1_unset :: VariantAutoscaling_v1 where
  "va1_unset =
     \<lparr>va1_Name = ''test'', va1_Namespace = ''default'',
      va1_Labels = fmap_of_list [(''inference.optimization/acceleratorName'', ''A100'')],
      va1_Spec =
        \<lparr>spec1_ModelID = ''default/default'',
         spec1_ModelProfile_Accelerators =
           [\<lparr>ap_Acc = ''A100'', ap_AccCount = 1, ap_PerfParms = parms_ok,
             ap_MaxBatchSize = 8\<rparr>],
         spec1_EnableScaleToZero = None,
         spec1_ScaleToZeroPodRetentionPeriod = None\<rparr>,
      va1_Status =
        \<lparr>st1_CurrentAlloc =
           \<lparr>a1_Accelerator = ''A100'', a1_NumReplicas = 2, a1_MaxBatch = 256,
            a1_VariantCost = ''NaN'', a1_TTFTAverage = ''1'', a1_ITLAverage = ''Inf'',
            a1_Load = \<lparr>lp_ArrivalRate = ''abc'', lp_AvgInputTokens = ''1'',
                       lp_AvgOutputTokens = ''2''\<rparr>\<rparr>\<rparr>\<rparr>"

definition va1_enabled :: VariantAutoscaling_v1 where
  "va1_enabled = va1_unset\<lparr>va1_Spec := (va1_Spec va1_unset)\<lparr>spec1_EnableScaleToZero := Some True\<rparr>\<rparr>"

definition va1_disabled :: VariantAutoscaling_v1 where
  "va1_disabled =
     va1_unset\<lparr>va1_Spec := (va1_Spec va1_unset)\<lparr>spec1_EnableScaleToZero := Some False\<rparr>\<rparr>"

text \<open>Two clocks.\<close>

definition clock_a :: "nat \<Rightarrow> Time" where
  "clock_a i = 1000"


text \<open>
  A deployment with two replicas, a Prometheus whose every query fails, and one that has
  no data point for any query.
\<close>

definition deployment0 :: Deployment where
  "deployment0 = \<lparr>dep_Name = ''test'', dep_Namespace = ''default'', dep_Replicas = Some 2\<rparr>"


definition prom_empty :: "string \<Rightarrow> error + model_Value" where
  "prom_empty query = Inr (ValVector [])"

text \<open>An accelerator configuration with one cost that parses and one that does not.\<close>

definition acceleratorCm0 :: "(string \<times> (string, string) fmap) list" where
  "acceleratorCm0 =
     [(''A100'', fmap_of_list [(''device'', ''NVIDIA-A100''), (''cost'', ''2'')]),
      (''MI300X'', fmap_of_list [(''device'', ''AMD-MI300X''), (''cost'', ''forty'')])]"

text \<open>The same variant with an empty list of current allocations.\<close>

definition va_no_alloc :: VariantAutoscaling where
  "va_no_alloc = va0\<lparr>va_Status := (va_Status va0)\<lparr>st_CurrentAllocs := []\<rparr>\<rparr>"

text \<open>
  An environment in which \<^verbatim>\<open>WVA_SCALE_TO_ZERO\<close> is set to \<^verbatim>\<open>TRUE\<close>, and one in which
  it is set to \<^verbatim>\<open>true\<close>.
\<close>

definition getenv_upper :: "string \<Rightarrow> string" where
  "getenv_upper name = (if name = ''WVA_SCALE_TO_ZERO'' then ''TRUE'' else [])"

definition upper_lib :: go_lib where
  "upper_lib = table_lib\<lparr>Getenv := getenv_upper\<rparr>"

definition getenv_true :: "string \<Rightarrow> string" where
  "getenv_true name = (if name = ''WVA_SCALE_TO_ZERO'' then ''true'' else [])"

definition true_lib :: go_lib where
  "true_lib = table_lib\<lparr>Getenv := getenv_true\<rparr>"







text \<open>
  The four queries that \<^verbatim>\<open>AddMetricsToOptStatus\<close> issues for a variant and its
  deployment: arrival rate, average output tokens, average waiting time, average
  inter-token latency.
\<close>

definition query_arrival :: "constants \<Rightarrow> VariantAutoscaling_v1 \<Rightarrow> Deployment \<Rightarrow> string" where
  "query_arrival C opt deployment =
     arrival_query C (spec1_ModelID (va1_Spec opt)) (dep_Namespace deployment)"

definition query_tokens :: "constants \<Rightarrow> VariantAutoscaling_v1 \<Rightarrow> Deployment \<Rightarrow> string" where
  "query_tokens C opt deployment =
     ratio_query C (VLLMRequestGenerationTokensSum C) (VLLMRequestGenerationTokensCount C)
       (spec1_ModelID (va1_Spec opt)) (dep_Namespace deployment)"

definition query_ttft :: "constants \<Rightarrow> VariantAutoscaling_v1 \<Rightarrow> Deployment \<Rightarrow> string" where
  "query_ttft C opt deployment =
     ratio_query C (VLLMRequestQueueTimeSecondsSum C) (VLLMRequestQueueTimeSecondsCount C)
       (spec1_ModelID (va1_Spec opt)) (dep_Namespace deployment)"

definition query_itl :: "constants \<Rightarrow> VariantAutoscaling_v1 \<Rightarrow> Deployment \<Rightarrow> string" where
  "query_itl C opt deployment =
     ratio_query C (VLLMTimePerOutputTokenSecondsSum C) (VLLMTimePerOutputTokenSecondsCount C)
       (spec1_ModelID (va1_Spec opt)) (dep_Namespace deployment)"



section \<open>Bit patterns of the infinities\<close>

lemma PosInf_push: "PosInf = push_bit 52 (mask 11)"
  by (simp add: PosInf_def mask_eq_exp_minus_1)

lemma NegInf_push: "NegInf = push_bit 52 (mask 12)"
  by (simp add: NegInf_def mask_eq_exp_minus_1)

lemma bit_PosInf: "bit PosInf n \<longleftrightarrow> 52 \<le> n \<and> n < 63"
  unfolding PosInf_push by (auto simp: bit_push_bit_iff bit_mask_iff)

lemma bit_NegInf: "bit NegInf n \<longleftrightarrow> 52 \<le> n \<and> n < 64"
  unfolding NegInf_push by (auto simp: bit_push_bit_iff bit_mask_iff)

lemma exponent_mask: "exponent_bits f = 2047 \<longleftrightarrow> take_bit 11 (drop_bit 52 f) = (mask 11 :: 64 word)"
proof -
  have "unat (mask 11 :: 64 word) = 2047" by (simp add: mask_eq_exp_minus_1)
  then show ?thesis unfolding exponent_bits_def by (metis word_unat_eq_iff)
qed

lemma exponent_all_ones: "exponent_bits f = 2047 \<longleftrightarrow> (\<forall>n. 52 \<le> n \<and> n < 63 \<longrightarrow> bit f n)"
proof -
  have "take_bit 11 (drop_bit 52 f) = (mask 11 :: 64 word) \<longleftrightarrow> (\<forall>n. 52 \<le> n \<and> n < 63 \<longrightarrow> bit f n)"
  proof
    assume a: "take_bit 11 (drop_bit 52 f) = (mask 11 :: 64 word)"
    show "\<forall>n. 52 \<le> n \<and> n < 63 \<longrightarrow> bit f n"
    proof (intro allI impI)
      fix n :: nat assume n: "52 \<le> n \<and> n < 63"
      have "bit (take_bit 11 (drop_bit 52 f)) (n - 52)"
        unfolding a using n by (auto simp: bit_mask_iff)
      then show "bit f n" using n by (simp add: bit_take_bit_iff bit_drop_bit_eq)
    qed
  next
    assume a: "\<forall>n. 52 \<le> n \<and> n < 63 \<longrightarrow> bit f n"
    show "take_bit 11 (drop_bit 52 f) = (mask 11 :: 64 word)"
      by (rule bit_word_eqI) (use a in \<open>auto simp: bit_take_bit_iff bit_drop_bit_eq bit_mask_iff\<close>)
  qed
  then show ?thesis by (simp add: exponent_mask)
qed

lemma fraction_zero: "fraction_bits f = 0 \<longleftrightarrow> (\<forall>n. n < 52 \<longrightarrow> \<not> bit f n)"
proof -
  have "fraction_bits f = 0 \<longleftrightarrow> take_bit 52 f = 0"
    unfolding fraction_bits_def by (simp add: unat_eq_0)
  also have "\<dots> \<longleftrightarrow> (\<forall>n. n < 52 \<longrightarrow> \<not> bit f n)"
    by (auto simp: bit_eq_iff bit_take_bit_iff)
  finally show ?thesis .
qed

lemma infinity_fields:
  "(exponent_bits f = 2047 \<and> fraction_bits f = 0) \<longleftrightarrow> (f = PosInf \<or> f = NegInf)"
proof
  assume "f = PosInf \<or> f = NegInf"
  then show "exponent_bits f = 2047 \<and> fraction_bits f = 0"
    by (auto simp: PosInf_def NegInf_def exponent_bits_def fraction_bits_def)
next
  assume a: "exponent_bits f = 2047 \<and> fraction_bits f = 0"
  then have e: "\<forall>n. 52 \<le> n \<and> n < 63 \<longrightarrow> bit f n" and z: "\<forall>n. n < 52 \<longrightarrow> \<not> bit f n"
    by (simp_all add: exponent_all_ones fraction_zero)
  show "f = PosInf \<or> f = NegInf"
  proof (cases "bit f 63")
    case True
    have "f = NegInf"
    proof (rule bit_word_eqI)
      fix n assume "n < LENGTH(64)"
      then show "bit f n = bit NegInf n"
        using e z True by (cases "n = 63") (auto simp: bit_NegInf not_less)
    qed
    then show ?thesis ..
  next
    case False
    have "f = PosInf"
    proof (rule bit_word_eqI)
      fix n assume "n < LENGTH(64)"
      then show "bit f n = bit PosInf n"
        using e z False by (cases "n = 63") (auto simp: bit_PosInf not_less)
    qed
    then show ?thesis ..
  qed
qed

lemma not_finite_iff: "\<not> is_finite x \<longleftrightarrow> IsNaN x \<or> IsInf x 0"
  unfolding IsNaN_def IsInf_def is_finite_def using infinity_fields [of x] by auto

lemma CheckValue_finite: "CheckValue x = is_finite x"
  unfolding CheckValue_def using not_finite_iff [of x] by auto

lemma FixValue_finite: "FixValue x = (if is_finite x then x else 0)"
  unfolding FixValue_def using not_finite_iff [of x] by auto

lemma is_finite_0: "is_finite 0"
  by (simp add: is_finite_def exponent_bits_def)

lemma FixValue_0: "FixValue 0 = 0"
  by (simp add: FixValue_finite)

lemma parse_checked_sanitized: "parse_checked L s = sanitized L s"
  by (simp add: parse_checked_def sanitized_def CheckValue_finite split: sum.splits)

section \<open>Maps\<close>

lemma map_len_0: "map_len m = 0 \<longleftrightarrow> m = fmempty"
  unfolding map_len_def
  by (metis fcard_0_eq fmdom_empty fmrestrict_fset_dom fmrestrict_fset_null)

section \<open>Performance profiles and server entries\<close>

lemma AddVariantProfileToSystemData_error:
  "snd (AddVariantProfileToSystemData L sd modelName accelerator acceleratorCount variantProfile)
     \<noteq> None \<Longrightarrow>
   fst (AddVariantProfileToSystemData L sd modelName accelerator acceleratorCount variantProfile)
     = sd"
  by (auto simp: AddVariantProfileToSystemData_def Let_def split: sum.splits if_splits)

lemma AddModelAcceleratorProfileToSystemData_error:
  "snd (AddModelAcceleratorProfileToSystemData L sd modelName acceleratorProfile) \<noteq> None \<Longrightarrow>
   fst (AddModelAcceleratorProfileToSystemData L sd modelName acceleratorProfile) = sd"
  by (auto simp: AddModelAcceleratorProfileToSystemData_def Let_def split: sum.splits if_splits)

lemma AddVariantProfileToSystemData_malformed:
  "malformed L (vp_PerfParms variantProfile) \<Longrightarrow>
   \<exists>err. AddVariantProfileToSystemData L sd modelName accelerator acceleratorCount
           variantProfile = (sd, Some err)"
  by (auto simp: AddVariantProfileToSystemData_def malformed_def parses_def Let_def
      split: sum.splits)

lemma AddModelAcceleratorProfileToSystemData_malformed:
  "malformed L (ap_PerfParms acceleratorProfile) \<Longrightarrow>
   \<exists>err. AddModelAcceleratorProfileToSystemData L sd modelName acceleratorProfile =
           (sd, Some err)"
  by (auto simp: AddModelAcceleratorProfileToSystemData_def malformed_def parses_def Let_def
      split: sum.splits)

lemma malformed_short: "malformed table_lib parms_short"
  by (simp add: malformed_def parms_short_def map_len_def fcard_finsert_if)

lemma AddServerInfoToSystemData_error:
  "snd (AddServerInfoToSystemData L sd va className) \<noteq> None \<Longrightarrow>
   fst (AddServerInfoToSystemData L sd va className) = sd"
  by (auto simp: AddServerInfoToSystemData_def Let_def split: list.splits)

section \<open>Claims about the profile and server builders\<close>

text \<open>
  Claim C3. A performance profile whose decode or prefill parameter map has fewer than
  two entries, or one of whose coefficients alpha, beta, gamma, delta does not parse, is
  rejected by the add-profile operation (both \<^verbatim>\<open>AddVariantProfileToSystemData\<close> and
  \<^verbatim>\<open>AddModelAcceleratorProfileToSystemData\<close>): the call returns an error and the system
  data it was given, so no performance data is added for that variant, and adding the
  profile of another variant afterwards gives what it gives without the rejected call.
\<close>

theorem malformed_profile_rejected:
  "(malformed L (vp_PerfParms variantProfile) \<longrightarrow>
      (\<exists>err. AddVariantProfileToSystemData L sd modelName accelerator acceleratorCount
                variantProfile = (sd, Some err)) \<and>
      AddVariantProfileToSystemData L
        (fst (AddVariantProfileToSystemData L sd modelName accelerator acceleratorCount
                variantProfile))
        otherModel otherAccelerator otherCount otherProfile =
      AddVariantProfileToSystemData L sd otherModel otherAccelerator otherCount otherProfile) \<and>
   (malformed L (ap_PerfParms acceleratorProfile) \<longrightarrow>
      (\<exists>err. AddModelAcceleratorProfileToSystemData L sd modelName acceleratorProfile =
                (sd, Some err)) \<and>
      AddModelAcceleratorProfileToSystemData L
        (fst (AddModelAcceleratorProfileToSystemData L sd modelName acceleratorProfile))
        otherModel otherAcceleratorProfile =
      AddModelAcceleratorProfileToSystemData L sd otherModel otherAcceleratorProfile)"
proof -
  have v: "\<exists>err. AddVariantProfileToSystemData L sd modelName accelerator acceleratorCount
             variantProfile = (sd, Some err)"
    if "malformed L (vp_PerfParms variantProfile)"
    using that by (rule AddVariantProfileToSystemData_malformed)
  have a: "\<exists>err. AddModelAcceleratorProfileToSystemData L sd modelName acceleratorProfile =
             (sd, Some err)"
    if "malformed L (ap_PerfParms acceleratorProfile)"
    using that by (rule AddModelAcceleratorProfileToSystemData_malformed)
  show ?thesis using v a by auto
qed

theorem malformed_profile_rejected_witness:
  "malformed table_lib parms_short \<and>
   AddVariantProfileToSystemData table_lib sd0 ''m'' ''A100'' 1
     \<lparr>vp_PerfParms = parms_short, vp_MaxBatchSize = 8\<rparr> =
     (sd0, Some (Error ''length of decodeParms should be 2'')) \<and>
   AddModelAcceleratorProfileToSystemData table_lib sd0 ''m''
     \<lparr>ap_Acc = ''A100'', ap_AccCount = 1, ap_PerfParms = parms_short, ap_MaxBatchSize = 8\<rparr> =
     (sd0, Some (Error ''length of decodeParms should be 2''))"
  using malformed_profile_rejected [of table_lib
      "\<lparr>vp_PerfParms = parms_short, vp_MaxBatchSize = 8\<rparr>" sd0 "''m''"
      "''A100''" 1 "''m''" "''A100''" 1 "\<lparr>vp_PerfParms = parms_short, vp_MaxBatchSize = 8\<rparr>"
      "\<lparr>ap_Acc = ''A100'', ap_AccCount = 1, ap_PerfParms = parms_short, ap_MaxBatchSize = 8\<rparr>"
      "\<lparr>ap_Acc = ''A100'', ap_AccCount = 1, ap_PerfParms = parms_short, ap_MaxBatchSize = 8\<rparr>"]
    malformed_short
  by (simp add: AddVariantProfileToSystemData_def AddModelAcceleratorProfileToSystemData_def
      parms_short_def map_len_def fcard_finsert_if)

text \<open>
  Claim C10. The operations that add to the system data change nothing when they fail:
  whenever \<^verbatim>\<open>AddVariantProfileToSystemData\<close>, \<^verbatim>\<open>AddModelAcceleratorProfileToSystemData\<close>
  or \<^verbatim>\<open>AddServerInfoToSystemData\<close> returns an error, whatever its cause, the system data
  after the call is the system data before it.
\<close>

theorem system_data_unchanged_on_error:
  "(snd (AddVariantProfileToSystemData L sd modelName accelerator acceleratorCount variantProfile)
      \<noteq> None \<longrightarrow>
    fst (AddVariantProfileToSystemData L sd modelName accelerator acceleratorCount variantProfile)
      = sd) \<and>
   (snd (AddModelAcceleratorProfileToSystemData L sd modelName acceleratorProfile) \<noteq> None \<longrightarrow>
    fst (AddModelAcceleratorProfileToSystemData L sd modelName acceleratorProfile) = sd) \<and>
   (snd (AddServerInfoToSystemData L sd va className) \<noteq> None \<longrightarrow>
    fst (AddServerInfoToSystemData L sd va className) = sd)"
  using AddVariantProfileToSystemData_error AddModelAcceleratorProfileToSystemData_error
    AddServerInfoToSystemData_error
  by blast

theorem system_data_unchanged_on_error_witness:
  "snd (AddVariantProfileToSystemData table_lib sd0 ''m'' ''A100'' 1
          \<lparr>vp_PerfParms = parms_short, vp_MaxBatchSize = 8\<rparr>) \<noteq> None \<and>
   fst (AddVariantProfileToSystemData table_lib sd0 ''m'' ''A100'' 1
          \<lparr>vp_PerfParms = parms_short, vp_MaxBatchSize = 8\<rparr>) = sd0 \<and>
   snd (AddModelAcceleratorProfileToSystemData table_lib sd0 ''m''
          \<lparr>ap_Acc = ''A100'', ap_AccCount = 1, ap_PerfParms = parms_short,
           ap_MaxBatchSize = 8\<rparr>) \<noteq> None \<and>
   fst (AddModelAcceleratorProfileToSystemData table_lib sd0 ''m''
          \<lparr>ap_Acc = ''A100'', ap_AccCount = 1, ap_PerfParms = parms_short,
           ap_MaxBatchSize = 8\<rparr>) = sd0 \<and>
   snd (AddServerInfoToSystemData table_lib sd0 va_no_alloc ''Premium'') \<noteq> None \<and>
   fst (AddServerInfoToSystemData table_lib sd0 va_no_alloc ''Premium'') = sd0"
proof -
  have 1: "snd (AddVariantProfileToSystemData table_lib sd0 ''m'' ''A100'' 1
          \<lparr>vp_PerfParms = parms_short, vp_MaxBatchSize = 8\<rparr>) \<noteq> None"
    by (simp add: AddVariantProfileToSystemData_def parms_short_def map_len_def
        fcard_finsert_if)
  have 2: "snd (AddModelAcceleratorProfileToSystemData table_lib sd0 ''m''
          \<lparr>ap_Acc = ''A100'', ap_AccCount = 1, ap_PerfParms = parms_short,
           ap_MaxBatchSize = 8\<rparr>) \<noteq> None"
    by (simp add: AddModelAcceleratorProfileToSystemData_def parms_short_def map_len_def
        fcard_finsert_if)
  have 3: "snd (AddServerInfoToSystemData table_lib sd0 va_no_alloc ''Premium'') \<noteq> None"
    by (simp add: AddServerInfoToSystemData_def va_no_alloc_def Let_def)
  show ?thesis
    using 1 2 3
      system_data_unchanged_on_error [of table_lib sd0 "''m''" "''A100''" 1
        "\<lparr>vp_PerfParms = parms_short, vp_MaxBatchSize = 8\<rparr>"
        "\<lparr>ap_Acc = ''A100'', ap_AccCount = 1, ap_PerfParms = parms_short,
          ap_MaxBatchSize = 8\<rparr>" va_no_alloc "''Premium''"]
    by simp
qed

section \<open>Claims about the optimization engine\<close>

text \<open>
  Claim C1. When the manager's optimization step has succeeded and the solution then
  generated is nil or has an empty server map, \<^verbatim>\<open>Optimize\<close> returns the error
  "no feasible allocations found for all variants" together with an empty map: it
  returns no optimized allocation, and the failure is told apart from a successful
  result by the error.
\<close>

theorem Optimize_empty_solution_fails:
  assumes "managerOptimize = None"
    and "generateSolution = None \<or>
         (\<exists>sol. generateSolution = Some sol \<and> sol_Spec sol = fmempty)"
  shows "Optimize create managerOptimize generateSolution vaList clock =
     (Some fmempty, Some (Error ''no feasible allocations found for all variants''))"
  using assms by (auto simp: Optimize_def map_len_0)

theorem Optimize_empty_solution_fails_witness:
  "Optimize CreateOptimizedAlloc_variant None (Some \<lparr>sol_Spec = fmempty\<rparr>) [va0] clock_a =
     (Some fmempty, Some (Error ''no feasible allocations found for all variants'')) \<and>
   Optimize CreateOptimizedAlloc_variant None None [va0] clock_a =
     (Some fmempty, Some (Error ''no feasible allocations found for all variants''))"
  using Optimize_empty_solution_fails [of None "Some \<lparr>sol_Spec = fmempty\<rparr>" CreateOptimizedAlloc_variant
      "[va0]" clock_a]
    Optimize_empty_solution_fails [of None None CreateOptimizedAlloc_variant "[va0]" clock_a]
  by simp

text \<open>
  Claim C9. \<^verbatim>\<open>Optimize\<close> never returns a nil map: when the manager's optimization
  fails, when the solution is nil or empty, and when it succeeds, the map returned with
  the error is a map, possibly empty.
\<close>

theorem Optimize_map_not_nil:
  "fst (Optimize create managerOptimize generateSolution vaList clock) \<noteq> None"
  by (simp add: Optimize_def split: option.splits)

section \<open>Server entries and accelerator specifications\<close>

lemma AddServerInfoToSystemData_entry:
  assumes "snd (AddServerInfoToSystemData L sd va className) = None"
  shows "\<exists>s currentAlloc rest.
      st_CurrentAllocs (va_Status va) = currentAlloc # rest \<and>
      fst (AddServerInfoToSystemData L sd va className) = sd\<lparr>sd_Servers := sd_Servers sd @ [s]\<rparr> \<and>
      sl_ArrivalRate (ad_Load (ss_CurrentAlloc s)) =
        float32_of_float64 L (sanitized L (lp_ArrivalRate (st_Load (va_Status va)))) \<and>
      sl_AvgInTokens (ad_Load (ss_CurrentAlloc s)) =
        int_of_float64 L (sanitized L (lp_AvgInputTokens (st_Load (va_Status va)))) \<and>
      sl_AvgOutTokens (ad_Load (ss_CurrentAlloc s)) =
        int_of_float64 L (sanitized L (lp_AvgOutputTokens (st_Load (va_Status va)))) \<and>
      ad_Cost (ss_CurrentAlloc s) = float32_of_float64 L (sanitized L (al_VariantCost currentAlloc)) \<and>
      ad_ITLAverage (ss_CurrentAlloc s) =
        float32_of_float64 L (sanitized L (st_ITLAverage (va_Status va))) \<and>
      ad_TTFTAverage (ss_CurrentAlloc s) =
        float32_of_float64 L (sanitized L (st_TTFTAverage (va_Status va))) \<and>
      ss_MinNumReplicas s = (if Getenv L ''WVA_SCALE_TO_ZERO'' = ''true'' then 0 else 1)"
  using assms
  by (auto simp: AddServerInfoToSystemData_def Let_def parse_checked_sanitized split: list.splits)

lemma AddServerInfoToSystemData_v1_entry:
  "\<exists>s. AddServerInfoToSystemData_v1 L sd va className =
          (sd\<lparr>sd_Servers := sd_Servers sd @ [s]\<rparr>, None) \<and>
      sl_ArrivalRate (ad_Load (ss_CurrentAlloc s)) =
        float32_of_float64 L
          (sanitized L (lp_ArrivalRate (a1_Load (st1_CurrentAlloc (va1_Status va))))) \<and>
      sl_AvgInTokens (ad_Load (ss_CurrentAlloc s)) =
        int_of_float64 L
          (sanitized L (lp_AvgInputTokens (a1_Load (st1_CurrentAlloc (va1_Status va))))) \<and>
      sl_AvgOutTokens (ad_Load (ss_CurrentAlloc s)) =
        int_of_float64 L
          (sanitized L (lp_AvgOutputTokens (a1_Load (st1_CurrentAlloc (va1_Status va))))) \<and>
      ad_Cost (ss_CurrentAlloc s) =
        float32_of_float64 L (sanitized L (a1_VariantCost (st1_CurrentAlloc (va1_Status va)))) \<and>
      ad_ITLAverage (ss_CurrentAlloc s) =
        float32_of_float64 L (sanitized L (a1_ITLAverage (st1_CurrentAlloc (va1_Status va)))) \<and>
      ad_TTFTAverage (ss_CurrentAlloc s) =
        float32_of_float64 L (sanitized L (a1_TTFTAverage (st1_CurrentAlloc (va1_Status va)))) \<and>
      ss_MinNumReplicas s = GetMinNumReplicas L va"
  unfolding AddServerInfoToSystemData_v1_def Let_def parse_checked_sanitized
  by (intro exI conjI) (rule refl, simp_all)

lemma AddServerInfoToSystemData_v1_floor:
  "snd (AddServerInfoToSystemData_v1 L sd va className) = None \<and>
   map ss_MinNumReplicas (sd_Servers (fst (AddServerInfoToSystemData_v1 L sd va className))) =
   map ss_MinNumReplicas (sd_Servers sd) @ [GetMinNumReplicas L va]"
  by (simp add: AddServerInfoToSystemData_v1_def Let_def)

lemma AddServerInfoToSystemData_floor:
  "snd (AddServerInfoToSystemData L sd va className) = None \<Longrightarrow>
   map ss_MinNumReplicas (sd_Servers (fst (AddServerInfoToSystemData L sd va className))) =
   map ss_MinNumReplicas (sd_Servers sd) @
     [if Getenv L ''WVA_SCALE_TO_ZERO'' = ''true'' then 0 else 1]"
  by (auto simp: AddServerInfoToSystemData_def Let_def split: list.splits)

lemma GetMinNumReplicas_floor:
  "GetMinNumReplicas L va =
     replica_floor (spec1_EnableScaleToZero (va1_Spec va))
       (EqualFold (Getenv L ''WVA_SCALE_TO_ZERO'') ''true'')"
  by (simp add: GetMinNumReplicas_def IsScaleToZeroEnabled_def replica_floor_def
      scale_to_zero_enabled_def split: option.splits)

lemma accelerator_loop_names:
  "map as_Name (accelerator_loop L cm acc) =
   map as_Name acc @ map fst (filter (\<lambda>(key, val). parses L (map_index val ''cost'')) cm)"
  by (induction cm arbitrary: acc) (auto simp: parses_def split: sum.splits)

lemma distinct_count: "distinct xs \<Longrightarrow> length (filter (\<lambda>y. y = k) xs) = (if k \<in> set xs then 1 else 0)"
  by (induction xs) auto

lemma filter_name_length:
  "length (filter (\<lambda>a. as_Name a = k) xs) = length (filter (\<lambda>y. y = k) (map as_Name xs))"
  by (induction xs) auto

section \<open>Evaluation of the worked inputs\<close>

lemmas table_defs = table_lib_def table_ParseFloat_def table_FormatFloat_def table_float32_def
  table_float32_of_int_def table_int_def table_float64_of_int32_def table_mul_def table_Getenv_def
  table_Unmarshal_def f64_1_def f64_2_def f64_NaN_def PosInf_def NegInf_def

lemmas float_defs = CheckValue_def FixValue_def IsNaN_def IsInf_def exponent_bits_def fraction_bits_def
  is_finite_def

lemma va0_entry:
  "AddServerInfoToSystemData table_lib sd0 va0 ''Premium'' =
     (sd0\<lparr>sd_Servers :=
        [\<lparr>ss_Name = ''test:default'', ss_Class = ''Premium'', ss_Model = ''default/default'',
          ss_KeepAccelerator = True, ss_MinNumReplicas = 1, ss_MaxBatchSize = 8,
          ss_CurrentAlloc =
            \<lparr>ad_Accelerator = ''A100'', ad_NumReplicas = 2, ad_MaxBatch = 256, ad_Cost = 0,
             ad_ITLAverage = 0, ad_TTFTAverage = 0x3F800000,
             ad_Load = \<lparr>sl_ArrivalRate = 0, sl_AvgInTokens = 1, sl_AvgOutTokens = 2\<rparr>\<rparr>,
          ss_DesiredAlloc = zero_AllocationData\<rparr>]\<rparr>, None)"
  by (simp add: AddServerInfoToSystemData_def va0_def alloc0_def sd0_def CreateSystemData_def
      parse_checked_def FullName_def Let_def table_defs float_defs)

lemma cm0_distinct: "distinct (map fst acceleratorCm0)"
  by (simp add: acceleratorCm0_def)


lemma table_format_0: "FormatFloat table_lib 0 CHR ''f'' 2 32 = ''0.00''"
  by (simp add: table_lib_def table_FormatFloat_def)






lemma EqualFold_TRUE: "EqualFold ''TRUE'' ''true''"
  by code_simp

lemma EqualFold_unset: "\<not> EqualFold [] ''true''"
  by code_simp

lemma sd0_servers: "sd_Servers sd0 = []"
  by (simp add: sd0_def CreateSystemData_def)

lemma va0_floor_true:
  "snd (AddServerInfoToSystemData true_lib sd0 va0 ''Premium'') = None"
  by (simp add: AddServerInfoToSystemData_def va0_def Let_def)

section \<open>Claim about numeric sanitization\<close>

text \<open>
  Claim C4. For every \<^verbatim>\<open>float64\<close> value \<open>x\<close>, \<^verbatim>\<open>FixValue\<close> sets \<open>x\<close> to zero when \<open>x\<close> is a
  NaN or the positive or negative infinity and leaves it unchanged otherwise (zero and
  negative finite values included); \<^verbatim>\<open>CheckValue\<close> holds exactly of the finite values;
  and when \<^verbatim>\<open>AddServerInfoToSystemData\<close> adds a server entry, its arrival rate, average
  input and output tokens, cost, ITL and TTFT are the conversions of the sanitized
  status strings: the parsed value when the string parses to a finite number, zero when
  it does not parse or parses to a non-finite value.
\<close>

theorem numeric_values_sanitized:
  "FixValue x = (if IsNaN x \<or> x = PosInf \<or> x = NegInf then 0 else x) \<and>
   (CheckValue x \<longleftrightarrow> is_finite x) \<and>
   (is_finite x \<longleftrightarrow> \<not> (IsNaN x \<or> x = PosInf \<or> x = NegInf)) \<and>
   (snd (AddServerInfoToSystemData L sd va className) = None \<longrightarrow>
    (\<exists>s currentAlloc rest.
      st_CurrentAllocs (va_Status va) = currentAlloc # rest \<and>
      fst (AddServerInfoToSystemData L sd va className) = sd\<lparr>sd_Servers := sd_Servers sd @ [s]\<rparr> \<and>
      sl_ArrivalRate (ad_Load (ss_CurrentAlloc s)) =
        float32_of_float64 L (sanitized L (lp_ArrivalRate (st_Load (va_Status va)))) \<and>
      sl_AvgInTokens (ad_Load (ss_CurrentAlloc s)) =
        int_of_float64 L (sanitized L (lp_AvgInputTokens (st_Load (va_Status va)))) \<and>
      sl_AvgOutTokens (ad_Load (ss_CurrentAlloc s)) =
        int_of_float64 L (sanitized L (lp_AvgOutputTokens (st_Load (va_Status va)))) \<and>
      ad_Cost (ss_CurrentAlloc s) = float32_of_float64 L (sanitized L (al_VariantCost currentAlloc)) \<and>
      ad_ITLAverage (ss_CurrentAlloc s) =
        float32_of_float64 L (sanitized L (st_ITLAverage (va_Status va))) \<and>
      ad_TTFTAverage (ss_CurrentAlloc s) =
        float32_of_float64 L (sanitized L (st_TTFTAverage (va_Status va)))))"
proof -
  have n: "\<not> is_finite x \<longleftrightarrow> IsNaN x \<or> x = PosInf \<or> x = NegInf"
    using not_finite_iff [of x] by (auto simp: IsInf_def)
  have f: "FixValue x = (if IsNaN x \<or> x = PosInf \<or> x = NegInf then 0 else x)"
    using n by (metis FixValue_finite)
  have s: "snd (AddServerInfoToSystemData L sd va className) = None \<longrightarrow>
    (\<exists>s currentAlloc rest.
      st_CurrentAllocs (va_Status va) = currentAlloc # rest \<and>
      fst (AddServerInfoToSystemData L sd va className) = sd\<lparr>sd_Servers := sd_Servers sd @ [s]\<rparr> \<and>
      sl_ArrivalRate (ad_Load (ss_CurrentAlloc s)) =
        float32_of_float64 L (sanitized L (lp_ArrivalRate (st_Load (va_Status va)))) \<and>
      sl_AvgInTokens (ad_Load (ss_CurrentAlloc s)) =
        int_of_float64 L (sanitized L (lp_AvgInputTokens (st_Load (va_Status va)))) \<and>
      sl_AvgOutTokens (ad_Load (ss_CurrentAlloc s)) =
        int_of_float64 L (sanitized L (lp_AvgOutputTokens (st_Load (va_Status va)))) \<and>
      ad_Cost (ss_CurrentAlloc s) = float32_of_float64 L (sanitized L (al_VariantCost currentAlloc)) \<and>
      ad_ITLAverage (ss_CurrentAlloc s) =
        float32_of_float64 L (sanitized L (st_ITLAverage (va_Status va))) \<and>
      ad_TTFTAverage (ss_CurrentAlloc s) =
        float32_of_float64 L (sanitized L (st_TTFTAverage (va_Status va))))"
    using AddServerInfoToSystemData_entry [of L sd va className] by blast
  show ?thesis using n f s CheckValue_finite [of x] by blast
qed

theorem numeric_values_sanitized_witness:
  "snd (AddServerInfoToSystemData table_lib sd0 va0 ''Premium'') = None \<and>
   sanitized table_lib ''NaN'' = 0 \<and> sanitized table_lib ''abc'' = 0 \<and>
   sanitized table_lib ''Inf'' = 0 \<and> sanitized table_lib ''1'' = f64_1 \<and>
   map (ad_Cost \<circ> ss_CurrentAlloc)
     (sd_Servers (fst (AddServerInfoToSystemData table_lib sd0 va0 ''Premium''))) = [0] \<and>
   FixValue f64_NaN = 0 \<and> FixValue NegInf = 0 \<and> FixValue f64_1 = f64_1 \<and> \<not> CheckValue PosInf"
proof -
  have s: "sanitized table_lib ''NaN'' = 0 \<and> sanitized table_lib ''abc'' = 0 \<and>
      sanitized table_lib ''Inf'' = 0 \<and> sanitized table_lib ''1'' = f64_1"
    by (simp add: sanitized_def table_defs float_defs)
  have n: "IsNaN f64_NaN" and f: "is_finite f64_1" and i: "\<not> is_finite PosInf"
    by (simp_all add: table_defs float_defs)
  have e: "sd_Servers sd0 = []" by (simp add: sd0_def CreateSystemData_def)
  show ?thesis
    using numeric_values_sanitized [of f64_NaN table_lib sd0 va0 "''Premium''"]
      numeric_values_sanitized [of NegInf table_lib sd0 va0 "''Premium''"]
      numeric_values_sanitized [of f64_1 table_lib sd0 va0 "''Premium''"]
      numeric_values_sanitized [of PosInf table_lib sd0 va0 "''Premium''"] s n f i e
    by (simp add: va0_entry)
qed

section \<open>Claim about the system-data builder\<close>

text \<open>
  Claim C7. For every accelerator configuration map, the system data that
  \<^verbatim>\<open>CreateSystemData\<close> returns has exactly one accelerator specification for each
  configured accelerator whose cost string parses, and none for an accelerator whose
  cost string does not parse. The builder has no error result: it returns a system data
  for every input.
\<close>

theorem CreateSystemData_accelerators:
  assumes "distinct (map fst acceleratorCm)"
  shows "length (filter (\<lambda>a. as_Name a = name)
            (sd_Accelerators (CreateSystemData L acceleratorCm serviceClassCm))) =
         (if \<exists>val. (name, val) \<in> set acceleratorCm \<and> parses L (map_index val ''cost'')
          then 1 else 0)"
proof -
  let ?good = "filter (\<lambda>(key, val). parses L (map_index val ''cost'')) acceleratorCm"
  have d: "distinct (map fst ?good)" using assms by (rule distinct_map_filter)
  have "length (filter (\<lambda>a. as_Name a = name)
            (sd_Accelerators (CreateSystemData L acceleratorCm serviceClassCm))) =
        length (filter (\<lambda>y. y = name) (map fst ?good))"
    by (simp add: CreateSystemData_def filter_name_length accelerator_loop_names)
  also have "\<dots> = (if name \<in> set (map fst ?good) then 1 else 0)"
    using d by (rule distinct_count)
  also have "name \<in> set (map fst ?good) \<longleftrightarrow>
      (\<exists>val. (name, val) \<in> set acceleratorCm \<and> parses L (map_index val ''cost''))"
    by force
  finally show ?thesis .
qed

theorem CreateSystemData_accelerators_witness:
  "distinct (map fst acceleratorCm0) \<and>
   length (filter (\<lambda>a. as_Name a = ''A100'')
            (sd_Accelerators (CreateSystemData table_lib acceleratorCm0 []))) = 1 \<and>
   length (filter (\<lambda>a. as_Name a = ''MI300X'')
            (sd_Accelerators (CreateSystemData table_lib acceleratorCm0 []))) = 0"
  using CreateSystemData_accelerators [OF cm0_distinct, of "''A100''" table_lib "[]"] CreateSystemData_accelerators [OF cm0_distinct, of "''MI300X''" table_lib "[]"]
    cm0_distinct
  by (simp add: acceleratorCm0_def parses_def map_index_def table_defs)

section \<open>Claim about the replica floor\<close>

text \<open>
  Claim C8. The minimum-replica floor of the server entry built for a variant is 0 when
  scale-to-zero is enabled for the variant and 1 otherwise, where the variant's own
  \<^verbatim>\<open>EnableScaleToZero\<close> setting decides when it is set and the global
  \<^verbatim>\<open>WVA_SCALE_TO_ZERO\<close> setting decides otherwise. This holds of \<^verbatim>\<open>GetMinNumReplicas\<close> and
  of the builder of the first listing, which calls it, for a resource that has the field;
  there the global setting is on when the variable equals \<^verbatim>\<open>true\<close> up to case. The
  resource that the builder of the second listing takes has no setting of its own, and
  the floor of its server entry is decided by the global setting, which is on when the
  variable is \<^verbatim>\<open>true\<close>.
\<close>

theorem server_entry_replica_floor:
  "snd (AddServerInfoToSystemData_v1 L sd va className) = None \<and>
   map ss_MinNumReplicas (sd_Servers (fst (AddServerInfoToSystemData_v1 L sd va className))) =
     map ss_MinNumReplicas (sd_Servers sd) @
       [replica_floor (spec1_EnableScaleToZero (va1_Spec va))
          (EqualFold (Getenv L ''WVA_SCALE_TO_ZERO'') ''true'')] \<and>
   GetMinNumReplicas L va =
     replica_floor (spec1_EnableScaleToZero (va1_Spec va))
       (EqualFold (Getenv L ''WVA_SCALE_TO_ZERO'') ''true'') \<and>
   IsScaleToZeroEnabled L va =
     scale_to_zero_enabled (spec1_EnableScaleToZero (va1_Spec va))
       (EqualFold (Getenv L ''WVA_SCALE_TO_ZERO'') ''true'') \<and>
   (snd (AddServerInfoToSystemData L sd variant className) = None \<longrightarrow>
    map ss_MinNumReplicas
      (sd_Servers (fst (AddServerInfoToSystemData L sd variant className))) =
      map ss_MinNumReplicas (sd_Servers sd) @
        [replica_floor None (Getenv L ''WVA_SCALE_TO_ZERO'' = ''true'')])"
proof -
  have e: "IsScaleToZeroEnabled L va =
     scale_to_zero_enabled (spec1_EnableScaleToZero (va1_Spec va))
       (EqualFold (Getenv L ''WVA_SCALE_TO_ZERO'') ''true'')"
    by (simp add: IsScaleToZeroEnabled_def scale_to_zero_enabled_def split: option.splits)
  have s: "snd (AddServerInfoToSystemData L sd variant className) = None \<longrightarrow>
    map ss_MinNumReplicas
      (sd_Servers (fst (AddServerInfoToSystemData L sd variant className))) =
      map ss_MinNumReplicas (sd_Servers sd) @
        [replica_floor None (Getenv L ''WVA_SCALE_TO_ZERO'' = ''true'')]"
    using AddServerInfoToSystemData_floor [of L sd variant className]
    by (simp add: replica_floor_def scale_to_zero_enabled_def)
  show ?thesis
    using e s AddServerInfoToSystemData_v1_floor [of L sd va className]
      GetMinNumReplicas_floor [of L va]
    by simp
qed

theorem server_entry_replica_floor_witness:
  "map ss_MinNumReplicas
     (sd_Servers (fst (AddServerInfoToSystemData_v1 table_lib sd0 va1_enabled ''Premium''))) = [0] \<and>
   map ss_MinNumReplicas
     (sd_Servers (fst (AddServerInfoToSystemData_v1 upper_lib sd0 va1_disabled ''Premium''))) = [1] \<and>
   map ss_MinNumReplicas
     (sd_Servers (fst (AddServerInfoToSystemData_v1 upper_lib sd0 va1_unset ''Premium''))) = [0] \<and>
   map ss_MinNumReplicas
     (sd_Servers (fst (AddServerInfoToSystemData_v1 table_lib sd0 va1_unset ''Premium''))) = [1] \<and>
   snd (AddServerInfoToSystemData true_lib sd0 va0 ''Premium'') = None \<and>
   map ss_MinNumReplicas
     (sd_Servers (fst (AddServerInfoToSystemData true_lib sd0 va0 ''Premium''))) = [0] \<and>
   snd (AddServerInfoToSystemData table_lib sd0 va0 ''Premium'') = None \<and>
   map ss_MinNumReplicas
     (sd_Servers (fst (AddServerInfoToSystemData table_lib sd0 va0 ''Premium''))) = [1]"
proof -
  have g: "Getenv table_lib ''WVA_SCALE_TO_ZERO'' = []"
      "Getenv upper_lib ''WVA_SCALE_TO_ZERO'' = ''TRUE''"
      "Getenv true_lib ''WVA_SCALE_TO_ZERO'' = ''true''"
    by (simp_all add: table_lib_def upper_lib_def true_lib_def table_Getenv_def getenv_upper_def
        getenv_true_def)
  have v: "spec1_EnableScaleToZero (va1_Spec va1_enabled) = Some True"
      "spec1_EnableScaleToZero (va1_Spec va1_disabled) = Some False"
      "spec1_EnableScaleToZero (va1_Spec va1_unset) = None"
    by (simp_all add: va1_enabled_def va1_disabled_def va1_unset_def)
  have t: "snd (AddServerInfoToSystemData table_lib sd0 va0 ''Premium'') = None"
    by (simp add: va0_entry)
  show ?thesis
    using server_entry_replica_floor [of table_lib sd0 va1_enabled "''Premium''" va0]
      server_entry_replica_floor [of upper_lib sd0 va1_disabled "''Premium''" va0]
      server_entry_replica_floor [of upper_lib sd0 va1_unset "''Premium''" va0]
      server_entry_replica_floor [of table_lib sd0 va1_unset "''Premium''" va0]
      server_entry_replica_floor [of true_lib sd0 va1_unset "''Premium''" va0]
      g v t va0_floor_true EqualFold_TRUE EqualFold_unset sd0_servers
    by (simp add: replica_floor_def scale_to_zero_enabled_def)
qed

section \<open>Claim about determinism\<close>








section \<open>Claims about metrics collection\<close>




text \<open>
  Claim C6. When each of the four queries answers with an empty vector, the operation
  succeeds, and the arrival rate, the average input tokens, the average output tokens,
  the ITL average and the TTFT average of the returned allocation all read \<^verbatim>\<open>"0.00"\<close>.
  The deployment has a replica count, and \<^verbatim>\<open>strconv.FormatFloat(0, 'f', 2, 32)\<close> is
  \<^verbatim>\<open>"0.00"\<close>.
\<close>

theorem AddMetricsToOptStatus_empty_vectors:
  assumes "promAPI (query_arrival C opt deployment) = Inr (ValVector [])"
    and "promAPI (query_tokens C opt deployment) = Inr (ValVector [])"
    and "promAPI (query_ttft C opt deployment) = Inr (ValVector [])"
    and "promAPI (query_itl C opt deployment) = Inr (ValVector [])"
    and "dep_Replicas deployment = Some replicas"
    and "FormatFloat L 0 CHR ''f'' 2 32 = ''0.00''"
  shows "\<exists>alloc. AddMetricsToOptStatus L C promAPI opt deployment acceleratorCostVal =
                 Returns (alloc, None) \<and>
               lp_ArrivalRate (a1_Load alloc) = ''0.00'' \<and>
               lp_AvgInputTokens (a1_Load alloc) = ''0.00'' \<and>
               lp_AvgOutputTokens (a1_Load alloc) = ''0.00'' \<and>
               a1_ITLAverage alloc = ''0.00'' \<and>
               a1_TTFTAverage alloc = ''0.00''"
  using assms by (simp add: AddMetricsToOptStatus_def query_arrival_def query_tokens_def query_ttft_def query_itl_def Let_def FixValue_0)

theorem AddMetricsToOptStatus_empty_vectors_witness:
  "\<exists>alloc. AddMetricsToOptStatus table_lib table_constants prom_empty va1_unset deployment0 f64_1 =
             Returns (alloc, None) \<and>
           lp_ArrivalRate (a1_Load alloc) = ''0.00'' \<and>
           lp_AvgInputTokens (a1_Load alloc) = ''0.00'' \<and>
           lp_AvgOutputTokens (a1_Load alloc) = ''0.00'' \<and>
           a1_ITLAverage alloc = ''0.00'' \<and>
           a1_TTFTAverage alloc = ''0.00''"
proof -
  have r: "dep_Replicas deployment0 = Some 2" by (simp add: deployment0_def)
  show ?thesis
    by (rule AddMetricsToOptStatus_empty_vectors [of prom_empty table_constants va1_unset deployment0 2 table_lib f64_1])
       (simp_all add: prom_empty_def r table_format_0)
qed

end
